theory Spec2Isabelle
  imports Complex_Main "HOL-Library.Sublist"
begin

section \<open>JavaScript values read by the dashboard\<close>

text \<open>
  A string is a list of UTF-16 code units; the model covers the code units below 256
  (ASCII and Latin-1), one \<^typ>\<open>char\<close> each. \<open>String.prototype.toLowerCase\<close> maps
  \<open>A..Z\<close> and the Latin-1 capitals \<open>0xC0..0xDE\<close> (without the multiplication sign
  \<open>0xD7\<close>) to the code unit 32 above; \<open>String.prototype.trim\<close> strips the white space
  and line terminators, which below 256 are \<open>0x09..0x0D\<close>, \<open>0x20\<close> and \<open>0xA0\<close>.
\<close>

definition toLowerChar :: "char \<Rightarrow> char" where
  "toLowerChar c =
     (let n = (of_char c :: nat)
      in if (65 \<le> n \<and> n \<le> 90) \<or> (192 \<le> n \<and> n \<le> 222 \<and> n \<noteq> 215)
         then char_of (n + 32) else c)"

definition toLowerCase :: "string \<Rightarrow> string" where
  "toLowerCase s = map toLowerChar s"

definition isWhiteSpace :: "char \<Rightarrow> bool" where
  "isWhiteSpace c = ((of_char c :: nat) \<in> {9, 10, 11, 12, 13, 32, 160})"

definition trim :: "string \<Rightarrow> string" where
  "trim s = rev (dropWhile isWhiteSpace (rev (dropWhile isWhiteSpace s)))"

text \<open>\<open>s.includes(w)\<close>: \<open>w\<close> occurs in \<open>s\<close> at some position.\<close>

fun str_includes :: "string \<Rightarrow> string \<Rightarrow> bool" where
  "str_includes [] w = (w = [])"
| "str_includes (c # cs) w = (take (length w) (c # cs) = w \<or> str_includes cs w)"

text \<open>
  The raw \<open>status\<close> of a leave record comes from a JSON document: \<open>null\<close>, a missing
  property (\<open>undefined\<close>) or a string. \<open>!status\<close> holds for \<open>null\<close>, \<open>undefined\<close>
  and the empty string; \<open>String(status)\<close> prints \<open>null\<close> and \<open>undefined\<close> by name.
\<close>

datatype jsval = JNull | JUndefined | JStr string

fun truthy :: "jsval \<Rightarrow> bool" where
  "truthy JNull = False"
| "truthy JUndefined = False"
| "truthy (JStr s) = (s \<noteq> [])"

fun toStr :: "jsval \<Rightarrow> string" where
  "toStr JNull = ''null''"
| "toStr JUndefined = ''undefined''"
| "toStr (JStr s) = s"

datatype leave_status = Pending | Approved | Declined

definition normalizeLeaveStatus :: "jsval \<Rightarrow> leave_status" where
  "normalizeLeaveStatus status =
     (if \<not> truthy status then Pending
      else let s = trim (toLowerCase (toStr status))
           in if str_includes s ''approved'' \<or> str_includes s ''disetujui'' then Approved
              else if str_includes s ''declined'' \<or> str_includes s ''rejected'' \<or> str_includes s ''ditolak''
                   then Declined
              else Pending)"

section \<open>Records fetched by the data layer\<close>

text \<open>
  A date field of a record (\<open>birth_date\<close>, \<open>join_date\<close>, \<open>current_contract_end\<close>,
  \<open>timestamp\<close>, \<open>tanggalPermohonan\<close>) is modelled by what the code does with it: its
  truthiness and the time value of \<open>new Date(field)\<close>.
  \<^item> \<open>DNull\<close>: \<open>null\<close>; falsy, and \<open>new Date(null)\<close> is the epoch (time value 0);
  \<^item> \<open>DMissing\<close>: \<open>undefined\<close> or the empty string; falsy, \<open>new Date\<close> gives Invalid Date;
  \<^item> \<open>DInvalid\<close>: a non-empty string that \<open>Date.parse\<close> rejects; truthy, Invalid Date;
  \<^item> \<open>DTime t\<close>: a non-empty string that parses to the time value \<open>t\<close> (milliseconds
    since the epoch, UTC); truthy.
  A Date object is its time value, \<^typ>\<open>int option\<close>, with \<open>None\<close> for Invalid Date
  (time value NaN); a number that may be NaN is modelled the same way. The numbers of
  this model are integers, so \<open>-0\<close> (which compares like \<open>0\<close>) is \<open>0\<close>, and the
  arithmetic on time values is exact.

  The flags \<open>is_active\<close> and \<open>is_resigned\<close> hold the truthiness of the fields, and
  \<open>gender\<close> and \<open>employment_status\<close> the strings that the code compares with \<open>===\<close>.
\<close>

datatype jsdate = DNull | DMissing | DInvalid | DTime int

type_synonym jsnum = "int option"

record employee =
  full_name :: string
  gender :: string
  is_active :: bool
  is_resigned :: bool
  employment_status :: string
  birth_date :: jsdate
  join_date :: jsdate
  current_contract_end :: jsdate

record leave =
  namaLengkap :: string
  status :: jsval
  timestamp :: jsdate
  tanggalPermohonan :: jsdate

section \<open>Statistics\<close>

record employee_stats =
  totalEmployees :: nat
  totalMale :: nat
  totalFemale :: nat
  activeEmployees :: nat
  activeMale :: nat
  activeFemale :: nat
  inactiveEmployees :: nat
  inactiveMale :: nat
  inactiveFemale :: nat

text \<open>The body of the \<open>forEach\<close> callback of \<open>calculateEmployeeStats\<close>, on the counters.\<close>

definition countEmployee :: "employee \<Rightarrow> employee_stats \<Rightarrow> employee_stats" where
  "countEmployee emp stats =
     (let s1 = stats\<lparr>totalEmployees := totalEmployees stats + 1\<rparr>;
          s2 = (if gender emp = ''Male'' then s1\<lparr>totalMale := totalMale s1 + 1\<rparr> else s1);
          s3 = (if gender emp = ''Female'' then s2\<lparr>totalFemale := totalFemale s2 + 1\<rparr> else s2);
          s4 = (if is_active emp \<and> \<not> is_resigned emp
                then let a1 = s3\<lparr>activeEmployees := activeEmployees s3 + 1\<rparr>;
                         a2 = (if gender emp = ''Male'' then a1\<lparr>activeMale := activeMale a1 + 1\<rparr> else a1)
                     in (if gender emp = ''Female'' then a2\<lparr>activeFemale := activeFemale a2 + 1\<rparr> else a2)
                else s3)
      in if \<not> is_active emp
         then let i1 = s4\<lparr>inactiveEmployees := inactiveEmployees s4 + 1\<rparr>;
                  i2 = (if gender emp = ''Male'' then i1\<lparr>inactiveMale := inactiveMale i1 + 1\<rparr> else i1)
              in (if gender emp = ''Female'' then i2\<lparr>inactiveFemale := inactiveFemale i2 + 1\<rparr> else i2)
         else s4)"

definition calculateEmployeeStats :: "employee list \<Rightarrow> employee_stats" where
  "calculateEmployeeStats employees =
     fold countEmployee employees
       \<lparr>totalEmployees = 0, totalMale = 0, totalFemale = 0,
        activeEmployees = 0, activeMale = 0, activeFemale = 0,
        inactiveEmployees = 0, inactiveMale = 0, inactiveFemale = 0\<rparr>"

text \<open>
  \<open>calculateTurnoverData\<close> keeps three counters \<open>(active, resigned, inactive)\<close>; its
  \<open>forEach\<close> callback tests \<open>is_resigned\<close> first.
\<close>

definition countTurnover :: "employee \<Rightarrow> nat \<times> nat \<times> nat \<Rightarrow> nat \<times> nat \<times> nat" where
  "countTurnover emp c =
     (case c of (active, resigned, inactive) \<Rightarrow>
        if is_resigned emp then (active, resigned + 1, inactive)
        else if is_active emp then (active + 1, resigned, inactive)
        else (active, resigned, inactive + 1))"

text \<open>
  \<open>((resigned / length) * 100).toFixed(1)\<close>. \<open>toFixed(1)\<close> takes the integer \<open>n\<close> for
  which \<open>n / 10\<close> is closest to the number, the larger one of two, and prints it with a
  point before its last digit. The model computes \<open>n\<close> from the exact quotient
  \<open>1000 * resigned / length\<close>. JavaScript computes the quotient in binary64, which
  decides the same \<open>n\<close> except where the exact quotient lies halfway between two
  integers; there the rounding error of the division and the multiplication decides,
  and the model takes that decision as the parameter \<open>up\<close>.
\<close>

definition tenths :: "(nat \<Rightarrow> nat \<Rightarrow> bool) \<Rightarrow> nat \<Rightarrow> nat \<Rightarrow> nat" where
  "tenths up r t =
     (let q = (1000 * r) div t; m = (1000 * r) mod t
      in if 2 * m < t then q
         else if t < 2 * m then q + 1
         else if up r t then q + 1 else q)"

fun showNat :: "nat \<Rightarrow> string" where
  "showNat n =
     (if n < 10 then [''0123456789'' ! n]
      else showNat (n div 10) @ [''0123456789'' ! (n mod 10)])"

definition toFixed1 :: "(nat \<Rightarrow> nat \<Rightarrow> bool) \<Rightarrow> nat \<Rightarrow> nat \<Rightarrow> string" where
  "toFixed1 up r t = (let n = tenths up r t in showNat (n div 10) @ ''.'' @ showNat (n mod 10))"

text \<open>\<open>turnoverRate\<close> is the string of \<open>toFixed\<close>, or the number \<open>0\<close> for an empty list.\<close>

datatype rate = RateStr string | RateNum nat

record turnover_data =
  active :: nat
  resigned :: nat
  inactive :: nat
  total :: nat
  turnoverRate :: rate

definition calculateTurnoverData :: "(nat \<Rightarrow> nat \<Rightarrow> bool) \<Rightarrow> employee list \<Rightarrow> turnover_data" where
  "calculateTurnoverData up employees =
     (case fold countTurnover employees (0, 0, 0) of (a, r, i) \<Rightarrow>
        \<lparr>active = a, resigned = r, inactive = i, total = length employees,
         turnoverRate = (if length employees > 0
                         then RateStr (toFixed1 up r (length employees))
                         else RateNum 0)\<rparr>)"

section \<open>Dates\<close>

text \<open>
  The time-value functions of ECMAScript (ECMA-262, section "Date Objects"), on integers.
  \<open>YearFromTime(t)\<close> is the largest year whose first day is not after \<open>t\<close>; here it is
  computed from an estimate that is off by at most one year. The host's time zone is a
  fixed offset \<open>tza\<close> from UTC in milliseconds (25200000 for Asia/Jakarta; a zone with
  daylight saving time is outside the model).
\<close>

definition msPerDay :: int where
  "msPerDay = 86400000"

definition Day :: "int \<Rightarrow> int" where
  "Day t = t div msPerDay"

definition TimeWithinDay :: "int \<Rightarrow> int" where
  "TimeWithinDay t = t mod msPerDay"

definition DaysInYear :: "int \<Rightarrow> int" where
  "DaysInYear y =
     (if y mod 4 \<noteq> 0 then 365 else if y mod 100 \<noteq> 0 then 366
      else if y mod 400 \<noteq> 0 then 365 else 366)"

definition DayFromYear :: "int \<Rightarrow> int" where
  "DayFromYear y =
     365 * (y - 1970) + (y - 1969) div 4 - (y - 1901) div 100 + (y - 1601) div 400"

definition YearFromDay :: "int \<Rightarrow> int" where
  "YearFromDay d =
     (let y = 1970 + (400 * d) div 146097
      in if DayFromYear (y + 1) \<le> d then y + 1
         else if d < DayFromYear y then y - 1 else y)"

definition YearFromTime :: "int \<Rightarrow> int" where
  "YearFromTime t = YearFromDay (Day t)"

definition InLeapYear :: "int \<Rightarrow> int" where
  "InLeapYear t = (if DaysInYear (YearFromTime t) = 366 then 1 else 0)"

definition DayWithinYear :: "int \<Rightarrow> int" where
  "DayWithinYear t = Day t - DayFromYear (YearFromTime t)"

definition MonthFromTime :: "int \<Rightarrow> int" where
  "MonthFromTime t =
     (let d = DayWithinYear t; l = InLeapYear t
      in if d < 31 then 0 else if d < 59 + l then 1 else if d < 90 + l then 2
         else if d < 120 + l then 3 else if d < 151 + l then 4 else if d < 181 + l then 5
         else if d < 212 + l then 6 else if d < 243 + l then 7 else if d < 273 + l then 8
         else if d < 304 + l then 9 else if d < 334 + l then 10 else 11)"

definition DateFromTime :: "int \<Rightarrow> int" where
  "DateFromTime t =
     (let d = DayWithinYear t; l = InLeapYear t; m = MonthFromTime t
      in if m = 0 then d + 1 else if m = 1 then d - 30 else if m = 2 then d - 58 - l
         else if m = 3 then d - 89 - l else if m = 4 then d - 119 - l
         else if m = 5 then d - 150 - l else if m = 6 then d - 180 - l
         else if m = 7 then d - 211 - l else if m = 8 then d - 242 - l
         else if m = 9 then d - 272 - l else if m = 10 then d - 303 - l
         else d - 333 - l)"

definition LocalTime :: "int \<Rightarrow> int \<Rightarrow> int" where
  "LocalTime tza t = t + tza"

definition UTC :: "int \<Rightarrow> int \<Rightarrow> int" where
  "UTC tza t = t - tza"

text \<open>
  \<open>MakeDay(year, month, date)\<close>: the day number of the first of month \<open>month mod 12\<close> in
  year \<open>year + floor(month / 12)\<close>, plus \<open>date - 1\<close>; a month or a date out of range
  carries over.
\<close>

definition MakeDay :: "int \<Rightarrow> int \<Rightarrow> int \<Rightarrow> int" where
  "MakeDay year month date =
     (let ym = year + month div 12; mn = month mod 12;
          l = (if DaysInYear ym = 366 then 1 else 0);
          first = (if mn = 0 then 0 else if mn = 1 then 31 else if mn = 2 then 59 + l
                   else if mn = 3 then 90 + l else if mn = 4 then 120 + l
                   else if mn = 5 then 151 + l else if mn = 6 then 181 + l
                   else if mn = 7 then 212 + l else if mn = 8 then 243 + l
                   else if mn = 9 then 273 + l else if mn = 10 then 304 + l else 334 + l)
      in DayFromYear ym + first + date - 1)"

definition MakeDate :: "int \<Rightarrow> int \<Rightarrow> int" where
  "MakeDate d time = d * msPerDay + time"

definition TimeClip :: "int \<Rightarrow> int option" where
  "TimeClip t = (if \<bar>t\<bar> > 8640000000000000 then None else Some t)"


text \<open>\<open>new Date(field)\<close> and the truthiness of a date field.\<close>

fun newDate :: "jsdate \<Rightarrow> int option" where
  "newDate DNull = Some 0"
| "newDate DMissing = None"
| "newDate DInvalid = None"
| "newDate (DTime t) = TimeClip t"

fun dateTruthy :: "jsdate \<Rightarrow> bool" where
  "dateTruthy DNull = False"
| "dateTruthy DMissing = False"
| "dateTruthy DInvalid = True"
| "dateTruthy (DTime t) = True"

text \<open>The methods of a Date object that the dashboard calls, in the host's local time.\<close>

definition getFullYear :: "int \<Rightarrow> int option \<Rightarrow> jsnum" where
  "getFullYear tza d = map_option (\<lambda>t. YearFromTime (LocalTime tza t)) d"

definition getMonth :: "int \<Rightarrow> int option \<Rightarrow> jsnum" where
  "getMonth tza d = map_option (\<lambda>t. MonthFromTime (LocalTime tza t)) d"

definition getDate :: "int \<Rightarrow> int option \<Rightarrow> jsnum" where
  "getDate tza d = map_option (\<lambda>t. DateFromTime (LocalTime tza t)) d"

text \<open>
  \<open>new Date(year, month, date)\<close>: a NaN argument gives Invalid Date, and a year from 0 to
  99 means 1900 + year.
\<close>

definition newDateYMD :: "int \<Rightarrow> jsnum \<Rightarrow> jsnum \<Rightarrow> jsnum \<Rightarrow> int option" where
  "newDateYMD tza year month date =
     (case (year, month, date) of
        (Some y, Some m, Some d) \<Rightarrow>
          let yr = (if 0 \<le> y \<and> y \<le> 99 then 1900 + y else y)
          in TimeClip (UTC tza (MakeDate (MakeDay yr m d) 0))
      | _ \<Rightarrow> None)"

definition setMonth :: "int \<Rightarrow> int option \<Rightarrow> jsnum \<Rightarrow> int option" where
  "setMonth tza d month =
     (case (d, month) of
        (Some t, Some m) \<Rightarrow>
          let lt = LocalTime tza t
          in TimeClip (UTC tza (MakeDate (MakeDay (YearFromTime lt) m (DateFromTime lt))
                                         (TimeWithinDay lt)))
      | _ \<Rightarrow> None)"

text \<open>
  \<open>toDateString()\<close> prints the local weekday, month, day and year, or \<open>Invalid Date\<close>.
  Two Dates print the same string exactly when both are invalid or both fall on the
  same local calendar day, so the string is modelled by the day's year, month and date.
\<close>

definition toDateString :: "int \<Rightarrow> int option \<Rightarrow> (int \<times> int \<times> int) option" where
  "toDateString tza d =
     map_option (\<lambda>t. let lt = LocalTime tza t
                      in (YearFromTime lt, MonthFromTime lt, DateFromTime lt)) d"

section \<open>The clock\<close>

text \<open>
  Every call of \<open>getWIBDate()\<close> reads the system clock with \<open>new Date()\<close>. The clock is
  the sequence of its readings (milliseconds since the epoch): the \<open>n\<close>-th read of a run
  returns \<open>clk n\<close>, and each function that reads it takes the number of reads made so far
  and returns the new number with its result.

  \<open>getWIBDate()\<close> prints the reading as the wall-clock date and time of Asia/Jakarta
  (UTC+7), to the second; the printed string is modelled by the millisecond count of that
  wall clock. \<open>new Date(string)\<close> reads such a string, which names no zone, as local
  time of the host: it rebuilds the time value from the printed fields, which gives the
  same count back (lemma \<open>MakeDate_fields\<close>), and converts it from local time to UTC.
\<close>

type_synonym clock = "nat \<Rightarrow> int"

definition getWIBDate :: "clock \<Rightarrow> nat \<Rightarrow> int \<times> nat" where
  "getWIBDate clk n = (1000 * (clk n div 1000) + 25200000, Suc n)"

definition parseLocal :: "int \<Rightarrow> int \<Rightarrow> int option" where
  "parseLocal tza w = TimeClip (UTC tza w)"

section \<open>Utility functions\<close>

text \<open>
  \<open>daysDifference(date1, date2)\<close> on the time values of its arguments:
  \<open>Math.ceil\<close> of the difference in days, NaN when either Date is invalid.
\<close>

definition daysDifference :: "int option \<Rightarrow> int option \<Rightarrow> jsnum" where
  "daysDifference date1 date2 =
     (case (date1, date2) of
        (Some t1, Some t2) \<Rightarrow> Some (- ((- (t2 - t1)) div msPerDay))
      | _ \<Rightarrow> None)"

text \<open>Comparisons of a number that may be NaN with a constant: false on NaN.\<close>

definition ge :: "jsnum \<Rightarrow> int \<Rightarrow> bool" where
  "ge x k = (case x of None \<Rightarrow> False | Some v \<Rightarrow> k \<le> v)"

definition le :: "jsnum \<Rightarrow> int \<Rightarrow> bool" where
  "le x k = (case x of None \<Rightarrow> False | Some v \<Rightarrow> v \<le> k)"

definition gt :: "jsnum \<Rightarrow> int \<Rightarrow> bool" where
  "gt x k = (case x of None \<Rightarrow> False | Some v \<Rightarrow> k < v)"

definition isToday :: "int \<Rightarrow> clock \<Rightarrow> int option \<Rightarrow> nat \<Rightarrow> bool \<times> nat" where
  "isToday tza clk date n =
     (case getWIBDate clk n of (w, n1) \<Rightarrow>
        let today = parseLocal tza w
        in (toDateString tza today = toDateString tza date, n1))"

definition getBirthdayThisYear :: "int \<Rightarrow> clock \<Rightarrow> jsdate \<Rightarrow> nat \<Rightarrow> int option \<times> nat" where
  "getBirthdayThisYear tza clk birthDate n =
     (case getWIBDate clk n of (w, n1) \<Rightarrow>
        let today = parseLocal tza w; birth = newDate birthDate
        in (newDateYMD tza (getFullYear tza today) (getMonth tza birth) (getDate tza birth), n1))"

definition getAnniversaryThisYear :: "int \<Rightarrow> clock \<Rightarrow> jsdate \<Rightarrow> nat \<Rightarrow> int option \<times> nat" where
  "getAnniversaryThisYear tza clk joinDate n =
     (case getWIBDate clk n of (w, n1) \<Rightarrow>
        let today = parseLocal tza w; join = newDate joinDate
        in (newDateYMD tza (getFullYear tza today) (getMonth tza join) (getDate tza join), n1))"

definition calculateYearsOfService :: "int \<Rightarrow> clock \<Rightarrow> jsdate \<Rightarrow> nat \<Rightarrow> jsnum \<times> nat" where
  "calculateYearsOfService tza clk joinDate n =
     (case getWIBDate clk n of (w, n1) \<Rightarrow>
        let today = parseLocal tza w; join = newDate joinDate
        in (case (getFullYear tza today, getFullYear tza join) of
              (Some a, Some b) \<Rightarrow> Some (a - b)
            | _ \<Rightarrow> None, n1))"

section \<open>Critical alerts\<close>

text \<open>
  An alert object. \<open>title\<close> and \<open>description\<close> are display strings (the second one
  printed with the locale's date format) and are left out; \<open>subject\<close> is the
  \<open>employee\<close> or the \<open>leave\<close> property; a numeric property that an alert does not have
  is \<open>None\<close>.

  None of the operations that the rules apply to these values throws: the methods of an
  invalid Date return NaN, a comparison with NaN is false, and \<open>toLocaleDateString\<close>
  prints an invalid Date as \<open>Invalid Date\<close>. The model therefore has no error value.
\<close>

datatype alert_type = Contract | Birthday | Anniversary | Probation | LeavePending

datatype priority_level = High | Medium | Low

datatype subject_ref = OfEmployee employee | OfLeave leave

record alert =
  atype :: alert_type
  priority :: priority_level
  subject :: subject_ref
  daysRemaining :: "jsnum option"
  years :: "jsnum option"
  daysPending :: "jsnum option"
  action :: string

definition PROBATION_WARNING_DAYS :: int where
  "PROBATION_WARNING_DAYS = 7"

text \<open>Rule 1, contract expiring: the callback of the \<open>forEach\<close>, and the rule.\<close>

definition contractAlert :: "int option \<Rightarrow> employee \<Rightarrow> alert list" where
  "contractAlert today emp =
     (let daysUntilExpiry = daysDifference today (newDate (current_contract_end emp))
      in if ge daysUntilExpiry 0 \<and> le daysUntilExpiry 30
         then [\<lparr>atype = Contract,
                priority = (if le daysUntilExpiry 7 then High
                            else if le daysUntilExpiry 14 then Medium else Low),
                subject = OfEmployee emp, daysRemaining = Some daysUntilExpiry,
                years = None, daysPending = None, action = ''Review & Renew''\<rparr>]
         else [])"

definition contractRule :: "int option \<Rightarrow> employee list \<Rightarrow> alert list" where
  "contractRule today employees =
     concat (map (contractAlert today)
       (filter (\<lambda>e. is_active e \<and> dateTruthy (current_contract_end e)) employees))"

text \<open>Rule 2, birthday today: each employee costs two reads of the clock.\<close>

fun birthdayLoop :: "int \<Rightarrow> clock \<Rightarrow> employee list \<Rightarrow> nat \<Rightarrow> alert list \<times> nat" where
  "birthdayLoop tza clk [] n = ([], n)"
| "birthdayLoop tza clk (emp # es) n =
     (case getBirthdayThisYear tza clk (birth_date emp) n of (birthdayThisYear, n1) \<Rightarrow>
      case isToday tza clk birthdayThisYear n1 of (t, n2) \<Rightarrow>
      case birthdayLoop tza clk es n2 of (rest, n3) \<Rightarrow>
        ((if t then [\<lparr>atype = Birthday, priority = Medium, subject = OfEmployee emp,
                      daysRemaining = None, years = None, daysPending = None,
                      action = ''Send Wishes''\<rparr>]
          else []) @ rest, n3))"

definition birthdayRule :: "int \<Rightarrow> clock \<Rightarrow> employee list \<Rightarrow> nat \<Rightarrow> alert list \<times> nat" where
  "birthdayRule tza clk employees n =
     birthdayLoop tza clk (filter (\<lambda>e. is_active e \<and> dateTruthy (birth_date e)) employees) n"

text \<open>
  Rule 3, work anniversary: one read of the clock for the anniversary, and one more
  for the years of service when the alert is pushed.
\<close>

fun anniversaryLoop :: "int \<Rightarrow> clock \<Rightarrow> int option \<Rightarrow> employee list \<Rightarrow> nat \<Rightarrow> alert list \<times> nat" where
  "anniversaryLoop tza clk today [] n = ([], n)"
| "anniversaryLoop tza clk today (emp # es) n =
     (case getAnniversaryThisYear tza clk (join_date emp) n of (anniversaryThisYear, n1) \<Rightarrow>
      let daysUntilAnniversary = daysDifference today anniversaryThisYear in
      case (if ge daysUntilAnniversary 0 \<and> le daysUntilAnniversary 7
            then (case calculateYearsOfService tza clk (join_date emp) n1 of (ys, n2) \<Rightarrow>
                    ([\<lparr>atype = Anniversary, priority = Low, subject = OfEmployee emp,
                       daysRemaining = None, years = Some ys, daysPending = None,
                       action = ''Send Congratulations''\<rparr>], n2))
            else ([], n1)) of (here, n2) \<Rightarrow>
      case anniversaryLoop tza clk today es n2 of (rest, n3) \<Rightarrow> (here @ rest, n3))"

definition anniversaryRule :: "int \<Rightarrow> clock \<Rightarrow> int option \<Rightarrow> employee list \<Rightarrow> nat \<Rightarrow> alert list \<times> nat" where
  "anniversaryRule tza clk today employees n =
     anniversaryLoop tza clk today
       (filter (\<lambda>e. is_active e \<and> dateTruthy (join_date e)) employees) n"

text \<open>Rule 4, probation ending: three months after the join date, by \<open>setMonth\<close>.\<close>

definition probationAlert :: "int \<Rightarrow> int option \<Rightarrow> employee \<Rightarrow> alert list" where
  "probationAlert tza today emp =
     (let joined = newDate (join_date emp);
          probationEnd = setMonth tza joined (map_option (\<lambda>m. m + 3) (getMonth tza joined));
          daysUntilProbationEnd = daysDifference today probationEnd
      in if ge daysUntilProbationEnd 0 \<and> le daysUntilProbationEnd PROBATION_WARNING_DAYS
         then [\<lparr>atype = Probation, priority = High, subject = OfEmployee emp,
                daysRemaining = Some daysUntilProbationEnd, years = None,
                daysPending = None, action = ''Review Performance''\<rparr>]
         else [])"

definition probationRule :: "int \<Rightarrow> int option \<Rightarrow> employee list \<Rightarrow> alert list" where
  "probationRule tza today employees =
     concat (map (probationAlert tza today)
       (filter (\<lambda>e. is_active e \<and> employment_status e = ''Probation'') employees))"

text \<open>Rule 5, leave pending for more than two days.\<close>

definition leaveAlert :: "int option \<Rightarrow> leave \<Rightarrow> alert list" where
  "leaveAlert today lv =
     (let requestDate = newDate (if dateTruthy (timestamp lv) then timestamp lv
                                 else tanggalPermohonan lv);
          pending = daysDifference requestDate today
      in if gt pending 2
         then [\<lparr>atype = LeavePending,
                priority = (if gt pending 5 then High else Medium),
                subject = OfLeave lv, daysRemaining = None, years = None,
                daysPending = Some pending, action = ''Review Request''\<rparr>]
         else [])"

definition leaveRule :: "int option \<Rightarrow> leave list \<Rightarrow> alert list" where
  "leaveRule today leaveData =
     concat (map (leaveAlert today)
       (filter (\<lambda>lv. normalizeLeaveStatus (status lv) = Pending) leaveData))"

text \<open>
  The \<open>alerts\<close> array before it is sorted: \<open>today\<close> is the first read of the clock, and
  the rules push in their order. \<open>Array.prototype.sort\<close> is stable, so with the
  comparator \<open>priorityOrder[a.priority] - priorityOrder[b.priority]\<close> it returns what the
  stable insertion sort by that key returns.
\<close>

definition collectAlerts :: "int \<Rightarrow> clock \<Rightarrow> employee list \<Rightarrow> leave list \<Rightarrow> alert list" where
  "collectAlerts tza clk employees leaveData =
     (case getWIBDate clk 0 of (w, n0) \<Rightarrow>
      let today = parseLocal tza w in
      case birthdayRule tza clk employees n0 of (birthdays, n1) \<Rightarrow>
      case anniversaryRule tza clk today employees n1 of (anniversaries, n2) \<Rightarrow>
        contractRule today employees @ birthdays @ anniversaries
          @ probationRule tza today employees @ leaveRule today leaveData)"

fun priorityOrder :: "priority_level \<Rightarrow> nat" where
  "priorityOrder High = 1"
| "priorityOrder Medium = 2"
| "priorityOrder Low = 3"

definition generateCriticalAlerts :: "int \<Rightarrow> clock \<Rightarrow> employee list \<Rightarrow> leave list \<Rightarrow> alert list" where
  "generateCriticalAlerts tza clk employees leaveData =
     sort_key (\<lambda>a. priorityOrder (priority a)) (collectAlerts tza clk employees leaveData)"

text \<open>The position of the rule that pushes an alert of a given type.\<close>

fun ruleOrder :: "alert_type \<Rightarrow> nat" where
  "ruleOrder Contract = 1"
| "ruleOrder Birthday = 2"
| "ruleOrder Anniversary = 3"
| "ruleOrder Probation = 4"
| "ruleOrder LeavePending = 5"

section \<open>Rules 2 and 3 for given readings\<close>



section \<open>Sample records and clocks\<close>

text \<open>An employee record with the given flags and no dates, for the worked examples.\<close>

definition staff :: "bool \<Rightarrow> bool \<Rightarrow> employee" where
  "staff act res =
     \<lparr>full_name = ''Staff'', gender = ''Female'', is_active = act, is_resigned = res,
      employment_status = ''Permanent'', birth_date = DNull, join_date = DNull,
      current_contract_end = DNull\<rparr>"

text \<open>
  Records and clocks for the worked examples: a host in Jakarta, a clock that stands
  still, an active employee with only a contract end, an active employee on probation
  or with a permanent post who joined at a given instant, and a pending leave request.
\<close>

definition jakarta :: int where
  "jakarta = 25200000"

definition frozen :: "int \<Rightarrow> clock" where
  "frozen now = (\<lambda>n. now)"

definition contractEmployee :: "int \<Rightarrow> employee" where
  "contractEmployee c =
     \<lparr>full_name = ''Budi'', gender = ''Male'', is_active = True, is_resigned = False,
      employment_status = ''Contract'', birth_date = DNull, join_date = DNull,
      current_contract_end = DTime c\<rparr>"

definition joinedEmployee :: "string \<Rightarrow> int \<Rightarrow> employee" where
  "joinedEmployee st j =
     \<lparr>full_name = ''Citra'', gender = ''Female'', is_active = True, is_resigned = False,
      employment_status = st, birth_date = DNull, join_date = DTime j,
      current_contract_end = DNull\<rparr>"

definition pendingLeave :: "int \<Rightarrow> leave" where
  "pendingLeave t =
     \<lparr>namaLengkap = ''Dewi'', status = JStr ''pending'', timestamp = DTime t,
      tanggalPermohonan = DMissing\<rparr>"

text \<open>
  An active employee with only a birth date; an active employee whose birth date does
  not parse and whose contract ends at a given instant; a clock that advances by
  \<open>step\<close> milliseconds from one read to the next.
\<close>

definition bornEmployee :: "int \<Rightarrow> employee" where
  "bornEmployee b =
     \<lparr>full_name = ''Eka'', gender = ''Male'', is_active = True, is_resigned = False,
      employment_status = ''Permanent'', birth_date = DTime b, join_date = DNull,
      current_contract_end = DNull\<rparr>"


definition ticking :: "int \<Rightarrow> int \<Rightarrow> clock" where
  "ticking t0 step = (\<lambda>n. t0 + step * int n)"



section \<open>The calendar functions\<close>


















lemma month_cases:
  fixes m :: int
  assumes "0 \<le> m" "m \<le> 11"
  obtains "m = 0" | "m = 1" | "m = 2" | "m = 3" | "m = 4" | "m = 5" | "m = 6"
    | "m = 7" | "m = 8" | "m = 9" | "m = 10" | "m = 11"
proof -
  from assms have "m = 0 \<or> m = 1 \<or> m = 2 \<or> m = 3 \<or> m = 4 \<or> m = 5 \<or> m = 6
      \<or> m = 7 \<or> m = 8 \<or> m = 9 \<or> m = 10 \<or> m = 11"
    by presburger
  then show ?thesis using that by blast
qed

lemma MonthFromTime_range: "0 \<le> MonthFromTime t" "MonthFromTime t \<le> 11"
  by (simp_all add: MonthFromTime_def Let_def)







lemma MakeDay_fields: "MakeDay (YearFromTime t) (MonthFromTime t) (DateFromTime t) = Day t"
proof -
  define m where "m = MonthFromTime t"
  have m: "0 \<le> m" "m \<le> 11"
    unfolding m_def by (rule MonthFromTime_range)+
  have dm: "m div 12 = 0" "m mod 12 = m"
    using m by simp_all
  have L: "(if DaysInYear (YearFromTime t) = 366 then 1 else 0) = InLeapYear t"
    by (simp add: InLeapYear_def)
  have "DayFromYear (YearFromTime t) +
      (if m = 0 then 0 else if m = 1 then 31 else if m = 2 then 59 + InLeapYear t
       else if m = 3 then 90 + InLeapYear t else if m = 4 then 120 + InLeapYear t
       else if m = 5 then 151 + InLeapYear t else if m = 6 then 181 + InLeapYear t
       else if m = 7 then 212 + InLeapYear t else if m = 8 then 243 + InLeapYear t
       else if m = 9 then 273 + InLeapYear t else if m = 10 then 304 + InLeapYear t
       else 334 + InLeapYear t) + DateFromTime t - 1 = Day t"
    using m unfolding DateFromTime_def Let_def m_def [symmetric]
    by (cases m rule: month_cases) (simp_all add: DayWithinYear_def)
  then show ?thesis
    by (simp only: MakeDay_def Let_def m_def [symmetric] dm L add_0_right)
qed


lemma MakeDate_fields:
  "MakeDate (MakeDay (YearFromTime t) (MonthFromTime t) (DateFromTime t)) (TimeWithinDay t) = t"
  by (simp add: MakeDay_fields MakeDate_def Day_def TimeWithinDay_def)




section \<open>Status normalization\<close>

lemma falsy_normal_form:
  "trim (toLowerCase (toStr JNull)) = ''null''"
  "trim (toLowerCase (toStr JUndefined)) = ''undefined''"
  "trim (toLowerCase (toStr (JStr []))) = []"
  by code_simp+

lemma no_keyword_in_falsy:
  "\<not> str_includes ''null'' ''approved''" "\<not> str_includes ''null'' ''disetujui''"
  "\<not> str_includes ''null'' ''declined''" "\<not> str_includes ''null'' ''rejected''"
  "\<not> str_includes ''null'' ''ditolak''"
  "\<not> str_includes ''undefined'' ''approved''" "\<not> str_includes ''undefined'' ''disetujui''"
  "\<not> str_includes ''undefined'' ''declined''" "\<not> str_includes ''undefined'' ''rejected''"
  "\<not> str_includes ''undefined'' ''ditolak''"
  "\<not> str_includes [] ''approved''" "\<not> str_includes [] ''disetujui''"
  "\<not> str_includes [] ''declined''" "\<not> str_includes [] ''rejected''"
  "\<not> str_includes [] ''ditolak''"
  by simp_all

lemma falsy_no_keyword:
  assumes "\<not> truthy raw"
  shows "\<not> str_includes (trim (toLowerCase (toStr raw))) ''approved''"
    and "\<not> str_includes (trim (toLowerCase (toStr raw))) ''disetujui''"
    and "\<not> str_includes (trim (toLowerCase (toStr raw))) ''declined''"
    and "\<not> str_includes (trim (toLowerCase (toStr raw))) ''rejected''"
    and "\<not> str_includes (trim (toLowerCase (toStr raw))) ''ditolak''"
proof -
  from assms have "raw = JNull \<or> raw = JUndefined \<or> raw = JStr []"
    by (cases raw) auto
  then have "trim (toLowerCase (toStr raw)) \<in> {''null'', ''undefined'', []}"
    using falsy_normal_form by (elim disjE) (simp_all only: insert_iff simp_thms)
  then show "\<not> str_includes (trim (toLowerCase (toStr raw))) ''approved''"
    and "\<not> str_includes (trim (toLowerCase (toStr raw))) ''disetujui''"
    and "\<not> str_includes (trim (toLowerCase (toStr raw))) ''declined''"
    and "\<not> str_includes (trim (toLowerCase (toStr raw))) ''rejected''"
    and "\<not> str_includes (trim (toLowerCase (toStr raw))) ''ditolak''"
    using no_keyword_in_falsy by auto
qed

text \<open>\<open>str_includes\<close> is the substring relation.\<close>

lemma str_includes_iff: "str_includes s w \<longleftrightarrow> (\<exists>p q. s = p @ w @ q)"
proof (induction s)
  case Nil
  then show ?case by auto
next
  case (Cons c cs)
  have a: "take (length w) (c # cs) = w \<longleftrightarrow> (\<exists>q. c # cs = w @ q)"
    by (metis append_eq_conv_conj)
  have b: "(\<exists>p q. c # cs = p @ w @ q) \<longleftrightarrow> (\<exists>q. c # cs = w @ q) \<or> (\<exists>p q. cs = p @ w @ q)"
    apply (rule iffI)
     apply (metis append_Nil append_eq_Cons_conv)
    by (metis append_Cons append_Nil)
  show ?case using Cons.IH a b by simp
qed

text \<open>
  The early return for a falsy status agrees with the classification of the printed
  value: neither \<open>null\<close>, \<open>undefined\<close> nor the empty string holds a keyword.
\<close>

lemma normalizeLeaveStatus_includes:
  "normalizeLeaveStatus raw =
     (let s = trim (toLowerCase (toStr raw))
      in if str_includes s ''approved'' \<or> str_includes s ''disetujui'' then Approved
         else if str_includes s ''declined'' \<or> str_includes s ''rejected''
                 \<or> str_includes s ''ditolak''
         then Declined
         else Pending)"
proof (cases "truthy raw")
  case True
  then show ?thesis by (simp add: normalizeLeaveStatus_def)
next
  case False
  then show ?thesis
    using falsy_no_keyword [OF False] by (simp add: normalizeLeaveStatus_def Let_def)
qed

text \<open>
  Claim C3. \<open>normalizeLeaveStatus\<close> lower-cases and trims its input; the result is
  Approved exactly when that string contains \<open>approved\<close> or \<open>disetujui\<close>, otherwise
  Declined exactly when it contains \<open>declined\<close>, \<open>rejected\<close> or \<open>ditolak\<close>, and Pending
  for every other input, \<open>null\<close>, \<open>undefined\<close> and the empty string among them.
  \<open>Disetujui\<close>, \<open>APPROVED\<close> between blanks and \<open>approved by manager\<close> are Approved;
  the empty string, \<open>null\<close>, \<open>undefined\<close> and \<open>awaiting review\<close> are Pending.
\<close>

theorem normalizeLeaveStatus_classifies:
  "normalizeLeaveStatus raw =
     (let s = trim (toLowerCase (toStr raw))
      in if (\<exists>p q. s = p @ ''approved'' @ q) \<or> (\<exists>p q. s = p @ ''disetujui'' @ q)
         then Approved
         else if (\<exists>p q. s = p @ ''declined'' @ q) \<or> (\<exists>p q. s = p @ ''rejected'' @ q)
                 \<or> (\<exists>p q. s = p @ ''ditolak'' @ q)
         then Declined
         else Pending)
   \<and> normalizeLeaveStatus (JStr ''Disetujui'') = Approved
   \<and> normalizeLeaveStatus (JStr '' APPROVED '') = Approved
   \<and> normalizeLeaveStatus (JStr ''approved by manager'') = Approved
   \<and> normalizeLeaveStatus (JStr []) = Pending
   \<and> normalizeLeaveStatus JNull = Pending
   \<and> normalizeLeaveStatus JUndefined = Pending
   \<and> normalizeLeaveStatus (JStr ''awaiting review'') = Pending"
proof (intro conjI)
  show "normalizeLeaveStatus raw =
     (let s = trim (toLowerCase (toStr raw))
      in if (\<exists>p q. s = p @ ''approved'' @ q) \<or> (\<exists>p q. s = p @ ''disetujui'' @ q)
         then Approved
         else if (\<exists>p q. s = p @ ''declined'' @ q) \<or> (\<exists>p q. s = p @ ''rejected'' @ q)
                 \<or> (\<exists>p q. s = p @ ''ditolak'' @ q)
         then Declined
         else Pending)"
    by (simp only: normalizeLeaveStatus_includes [of raw] str_includes_iff)
  show "normalizeLeaveStatus (JStr ''Disetujui'') = Approved" by code_simp
  show "normalizeLeaveStatus (JStr '' APPROVED '') = Approved" by code_simp
  show "normalizeLeaveStatus (JStr ''approved by manager'') = Approved" by code_simp
  show "normalizeLeaveStatus (JStr []) = Pending" by code_simp
  show "normalizeLeaveStatus JNull = Pending" by code_simp
  show "normalizeLeaveStatus JUndefined = Pending" by code_simp
  show "normalizeLeaveStatus (JStr ''awaiting review'') = Pending" by code_simp
qed

section \<open>Turnover snapshot and employee statistics\<close>

lemma fold_countTurnover:
  "fold countTurnover es (a, r, i) =
     (a + length (filter (\<lambda>e. \<not> is_resigned e \<and> is_active e) es),
      r + length (filter is_resigned es),
      i + length (filter (\<lambda>e. \<not> is_resigned e \<and> \<not> is_active e) es))"
  by (induction es arbitrary: a r i) (auto simp: countTurnover_def)



lemma turnover_fields:
  "active (calculateTurnoverData up es) = length (filter (\<lambda>e. \<not> is_resigned e \<and> is_active e) es)"
  "resigned (calculateTurnoverData up es) = length (filter is_resigned es)"
  "inactive (calculateTurnoverData up es) = length (filter (\<lambda>e. \<not> is_resigned e \<and> \<not> is_active e) es)"
  "total (calculateTurnoverData up es) = length es"
  "turnoverRate (calculateTurnoverData up es) =
     (if es = [] then RateNum 0 else RateStr (toFixed1 up (length (filter is_resigned es)) (length es)))"
  by (simp_all add: calculateTurnoverData_def fold_countTurnover)




lemma fold_countEmployee:
  "totalEmployees (fold countEmployee es s) = totalEmployees s + length es"
  "activeEmployees (fold countEmployee es s) =
     activeEmployees s + length (filter (\<lambda>e. is_active e \<and> \<not> is_resigned e) es)"
  "inactiveEmployees (fold countEmployee es s) =
     inactiveEmployees s + length (filter (\<lambda>e. \<not> is_active e) es)"
  by (induction es arbitrary: s; simp add: countEmployee_def Let_def)+

lemma stats_fields:
  "totalEmployees (calculateEmployeeStats es) = length es"
  "activeEmployees (calculateEmployeeStats es) = length (filter (\<lambda>e. is_active e \<and> \<not> is_resigned e) es)"
  "inactiveEmployees (calculateEmployeeStats es) = length (filter (\<lambda>e. \<not> is_active e) es)"
  by (simp_all add: calculateEmployeeStats_def fold_countEmployee)

lemma three_way:
  "length (filter (\<lambda>e. is_active e \<and> \<not> is_resigned e) es) + length (filter (\<lambda>e. \<not> is_active e) es)
    + length (filter (\<lambda>e. is_active e \<and> is_resigned e) es) = length es"
  by (induction es) auto

lemma filter_pos: "0 < length (filter P es) \<longleftrightarrow> (\<exists>e \<in> set es. P e)"
  by (simp add: filter_empty_conv)

text \<open>
  Claim C10. \<open>calculateEmployeeStats\<close> counts as active the employees that are active
  and not resigned, and as inactive those that are not active. An employee that is active
  and resigned is in \<open>totalEmployees\<close> only: active plus inactive never exceeds the
  total, and is below it exactly when such an employee exists.
  \<open>calculateTurnoverData\<close> counts every resigned employee as resigned, that one
  included.
\<close>

theorem calculateEmployeeStats_gap:
  "(let s = calculateEmployeeStats employees
    in totalEmployees s = length employees
     \<and> activeEmployees s = length (filter (\<lambda>e. is_active e \<and> \<not> is_resigned e) employees)
     \<and> inactiveEmployees s = length (filter (\<lambda>e. \<not> is_active e) employees)
     \<and> activeEmployees s + inactiveEmployees s
         + length (filter (\<lambda>e. is_active e \<and> is_resigned e) employees) = totalEmployees s
     \<and> activeEmployees s + inactiveEmployees s \<le> totalEmployees s
     \<and> (activeEmployees s + inactiveEmployees s < totalEmployees s
          \<longleftrightarrow> (\<exists>e \<in> set employees. is_active e \<and> is_resigned e)))
   \<and> resigned (calculateTurnoverData up employees) = length (filter is_resigned employees)
   \<and> calculateEmployeeStats [staff True True]
       = \<lparr>totalEmployees = 1, totalMale = 0, totalFemale = 1,
          activeEmployees = 0, activeMale = 0, activeFemale = 0,
          inactiveEmployees = 0, inactiveMale = 0, inactiveFemale = 0\<rparr>
   \<and> resigned (calculateTurnoverData up [staff True True]) = 1"
proof -
  have ex: "calculateEmployeeStats [staff True True]
       = \<lparr>totalEmployees = 1, totalMale = 0, totalFemale = 1,
          activeEmployees = 0, activeMale = 0, activeFemale = 0,
          inactiveEmployees = 0, inactiveMale = 0, inactiveFemale = 0\<rparr>"
    by (simp add: calculateEmployeeStats_def countEmployee_def staff_def)
  have ex2: "resigned (calculateTurnoverData up [staff True True]) = 1"
    by (simp add: turnover_fields staff_def)
  let ?a = "length (filter (\<lambda>e. is_active e \<and> \<not> is_resigned e) employees)"
  let ?i = "length (filter (\<lambda>e. \<not> is_active e) employees)"
  let ?b = "length (filter (\<lambda>e. is_active e \<and> is_resigned e) employees)"
  have sum: "?a + ?i + ?b = length employees"
    by (rule three_way)
  have gap: "0 < ?b \<longleftrightarrow> (\<exists>e \<in> set employees. is_active e \<and> is_resigned e)"
    by (rule filter_pos)
  have le: "?a + ?i \<le> length employees"
    using sum by arith
  have strict: "?a + ?i < length employees \<longleftrightarrow> (\<exists>e \<in> set employees. is_active e \<and> is_resigned e)"
    using sum gap by arith
  have res: "resigned (calculateTurnoverData up employees) = length (filter is_resigned employees)"
    by (simp add: turnover_fields)
  show ?thesis
    unfolding Let_def stats_fields
    using sum le strict res ex ex2 by blast
qed

section \<open>The rules of the alert engine\<close>

text \<open>\<open>daysDifference\<close> is the ceiling of the difference in days.\<close>

lemma daysDifference_ceiling:
  "daysDifference (Some t1) (Some t2) = Some \<lceil>real_of_int (t2 - t1) / 86400000\<rceil>"
proof -
  have "\<lceil>real_of_int (t2 - t1) / 86400000\<rceil>
      = - \<lfloor>real_of_int (- (t2 - t1)) / real_of_int 86400000\<rfloor>"
    unfolding ceiling_def by (simp only: of_int_minus minus_divide_left of_int_numeral)
  also have "\<dots> = - ((- (t2 - t1)) div 86400000)"
    by (simp only: floor_divide_of_int_eq)
  finally show ?thesis
    by (simp add: daysDifference_def msPerDay_def)
qed

lemma daysDifference_NaN [simp]:
  "daysDifference None d = None" "daysDifference d None = None"
  by (simp_all add: daysDifference_def split: option.splits)

text \<open>Each rule pushes alerts of its own type only.\<close>

lemma contractRule_type: "a \<in> set (contractRule today es) \<Longrightarrow> atype a = Contract"
  by (auto simp: contractRule_def contractAlert_def Let_def split: if_splits)

lemma probationRule_type: "a \<in> set (probationRule tza today es) \<Longrightarrow> atype a = Probation"
  by (auto simp: probationRule_def probationAlert_def Let_def split: if_splits)

lemma leaveRule_type: "a \<in> set (leaveRule today ls) \<Longrightarrow> atype a = LeavePending"
  by (auto simp: leaveRule_def leaveAlert_def Let_def split: if_splits)

lemma birthdayLoop_type: "a \<in> set (fst (birthdayLoop tza clk es n)) \<Longrightarrow> atype a = Birthday"
  by (induction es arbitrary: n) (auto simp: split_def split: if_splits)

lemma anniversaryLoop_type:
  "a \<in> set (fst (anniversaryLoop tza clk today es n)) \<Longrightarrow> atype a = Anniversary"
  by (induction es arbitrary: n) (auto simp: split_def Let_def split: if_splits)

text \<open>The array before the sort, rule by rule; the first read of the clock is \<open>today\<close>.\<close>

lemma collectAlerts_parts:
  "collectAlerts tza clk es ls =
     (let today = parseLocal tza (fst (getWIBDate clk 0));
          b = birthdayRule tza clk es (Suc 0)
      in contractRule today es @ fst b @ fst (anniversaryRule tza clk today es (snd b))
           @ probationRule tza today es @ leaveRule today ls)"
  by (simp add: collectAlerts_def getWIBDate_def Let_def split: prod.splits)

lemma filter_none: "(\<And>a. a \<in> set xs \<Longrightarrow> \<not> P a) \<Longrightarrow> filter P xs = []"
  by (simp add: filter_empty_conv)

lemma collect_Contract:
  "filter (\<lambda>a. atype a = Contract \<and> Q a) (collectAlerts tza clk es ls) =
   filter (\<lambda>a. atype a = Contract \<and> Q a) (contractRule (parseLocal tza (fst (getWIBDate clk 0))) es)"
proof -
  have 1: "filter (\<lambda>a. atype a = Contract \<and> Q a) (fst (birthdayRule tza clk es n)) = []" for n
    by (rule filter_none) (auto simp: birthdayRule_def dest: birthdayLoop_type)
  have 2: "filter (\<lambda>a. atype a = Contract \<and> Q a) (fst (anniversaryRule tza clk t es n)) = []" for n t
    by (rule filter_none) (auto simp: anniversaryRule_def dest: anniversaryLoop_type)
  have 3: "filter (\<lambda>a. atype a = Contract \<and> Q a) (probationRule tza t es) = []" for t
    by (rule filter_none) (auto dest: probationRule_type)
  have 4: "filter (\<lambda>a. atype a = Contract \<and> Q a) (leaveRule t ls) = []" for t
    by (rule filter_none) (auto dest: leaveRule_type)
  show ?thesis
    by (simp add: collectAlerts_parts Let_def 1 2 3 4)
qed

lemma sort_key_replicate: "sort_key f (replicate n x) = replicate n x"
  by (rule sort_key_id_if_sorted) (simp add: sorted_wrt_iff_nth_less sorted_map)

lemma generate_filter:
  "filter P (generateCriticalAlerts tza clk es ls) =
   sort_key (\<lambda>a. priorityOrder (priority a)) (filter P (collectAlerts tza clk es ls))"
  by (simp add: generateCriticalAlerts_def filter_sort)

text \<open>
  A rule that pushes at most one alert per record, naming the record: the alerts that
  name a record \<open>e\<close> are one per occurrence of \<open>e\<close> that passes the filter and the test.
\<close>

lemma filter_rule_for:
  assumes g: "\<And>x. g x = (if C x then [h x] else [])"
    and P: "\<And>x. P (h x) \<longleftrightarrow> x = e"
  shows "filter P (concat (map g (filter Q xs))) =
           replicate (if Q e \<and> C e then count_list xs e else 0) (h e)"
proof (induction xs)
  case Nil
  then show ?case by simp
next
  case (Cons x xs)
  show ?case
  proof (cases "x = e")
    case True
    then show ?thesis using Cons.IH by (simp add: g P)
  next
    case False
    then show ?thesis using Cons.IH by (simp add: g P)
  qed
qed

lemma contractRule_for:
  "filter (\<lambda>a. atype a = Contract \<and> subject a = OfEmployee emp) (contractRule today es) =
   (let d = daysDifference today (newDate (current_contract_end emp))
    in replicate
      (if is_active emp \<and> dateTruthy (current_contract_end emp) \<and> ge d 0 \<and> le d 30
       then count_list es emp else 0)
      \<lparr>atype = Contract,
       priority = (if le d 7 then High else if le d 14 then Medium else Low),
       subject = OfEmployee emp, daysRemaining = Some d,
       years = None, daysPending = None, action = ''Review & Renew''\<rparr>)"
proof -
  let ?d = "\<lambda>x. daysDifference today (newDate (current_contract_end x))"
  let ?h = "\<lambda>x. \<lparr>atype = Contract,
       priority = (if le (?d x) 7 then High else if le (?d x) 14 then Medium else Low),
       subject = OfEmployee x, daysRemaining = Some (?d x),
       years = None, daysPending = None, action = ''Review & Renew''\<rparr>"
  have "filter (\<lambda>a. atype a = Contract \<and> subject a = OfEmployee emp)
          (concat (map (contractAlert today)
             (filter (\<lambda>e. is_active e \<and> dateTruthy (current_contract_end e)) es))) =
        replicate (if (is_active emp \<and> dateTruthy (current_contract_end emp))
                      \<and> (ge (?d emp) 0 \<and> le (?d emp) 30) then count_list es emp else 0) (?h emp)"
    by (rule filter_rule_for) (simp_all add: contractAlert_def Let_def)
  then show ?thesis
    by (simp add: contractRule_def Let_def)
qed



lemma leaveRule_for:
  "filter (\<lambda>a. atype a = LeavePending \<and> subject a = OfLeave lv) (leaveRule today ls) =
   (let requestDate = newDate (if dateTruthy (timestamp lv) then timestamp lv
                               else tanggalPermohonan lv);
        p = daysDifference requestDate today
    in replicate
      (if normalizeLeaveStatus (status lv) = Pending \<and> gt p 2 then count_list ls lv else 0)
      \<lparr>atype = LeavePending, priority = (if gt p 5 then High else Medium),
       subject = OfLeave lv, daysRemaining = None, years = None,
       daysPending = Some p, action = ''Review Request''\<rparr>)"
proof -
  let ?p = "\<lambda>x. daysDifference (newDate (if dateTruthy (timestamp x) then timestamp x
                               else tanggalPermohonan x)) today"
  let ?h = "\<lambda>x. \<lparr>atype = LeavePending, priority = (if gt (?p x) 5 then High else Medium),
       subject = OfLeave x, daysRemaining = None, years = None,
       daysPending = Some (?p x), action = ''Review Request''\<rparr>"
  have "filter (\<lambda>a. atype a = LeavePending \<and> subject a = OfLeave lv)
          (concat (map (leaveAlert today)
             (filter (\<lambda>x. normalizeLeaveStatus (status x) = Pending) ls))) =
        replicate (if normalizeLeaveStatus (status lv) = Pending \<and> gt (?p lv) 2
                   then count_list ls lv else 0) (?h lv)"
    by (rule filter_rule_for) (simp_all add: leaveAlert_def Let_def)
  then show ?thesis
    by (simp add: leaveRule_def Let_def)
qed

lemma collect_Probation:
  "filter (\<lambda>a. atype a = Probation \<and> Q a) (collectAlerts tza clk es ls) =
   filter (\<lambda>a. atype a = Probation \<and> Q a)
     (probationRule tza (parseLocal tza (fst (getWIBDate clk 0))) es)"
proof -
  have 1: "filter (\<lambda>a. atype a = Probation \<and> Q a) (fst (birthdayRule tza clk es n)) = []" for n
    by (rule filter_none) (auto simp: birthdayRule_def dest: birthdayLoop_type)
  have 2: "filter (\<lambda>a. atype a = Probation \<and> Q a) (fst (anniversaryRule tza clk t es n)) = []" for n t
    by (rule filter_none) (auto simp: anniversaryRule_def dest: anniversaryLoop_type)
  have 3: "filter (\<lambda>a. atype a = Probation \<and> Q a) (contractRule t es) = []" for t
    by (rule filter_none) (auto dest: contractRule_type)
  have 4: "filter (\<lambda>a. atype a = Probation \<and> Q a) (leaveRule t ls) = []" for t
    by (rule filter_none) (auto dest: leaveRule_type)
  show ?thesis
    by (simp add: collectAlerts_parts Let_def 1 2 3 4)
qed

lemma collect_LeavePending:
  "filter (\<lambda>a. atype a = LeavePending \<and> Q a) (collectAlerts tza clk es ls) =
   filter (\<lambda>a. atype a = LeavePending \<and> Q a)
     (leaveRule (parseLocal tza (fst (getWIBDate clk 0))) ls)"
proof -
  have 1: "filter (\<lambda>a. atype a = LeavePending \<and> Q a) (fst (birthdayRule tza clk es n)) = []" for n
    by (rule filter_none) (auto simp: birthdayRule_def dest: birthdayLoop_type)
  have 2: "filter (\<lambda>a. atype a = LeavePending \<and> Q a) (fst (anniversaryRule tza clk t es n)) = []" for n t
    by (rule filter_none) (auto simp: anniversaryRule_def dest: anniversaryLoop_type)
  have 3: "filter (\<lambda>a. atype a = LeavePending \<and> Q a) (contractRule t es) = []" for t
    by (rule filter_none) (auto dest: contractRule_type)
  have 4: "filter (\<lambda>a. atype a = LeavePending \<and> Q a) (probationRule tza t es) = []" for t
    by (rule filter_none) (auto dest: probationRule_type)
  show ?thesis
    by (simp add: collectAlerts_parts Let_def 1 2 3 4)
qed

lemma collect_Anniversary:
  "filter (\<lambda>a. atype a = Anniversary \<and> Q a) (collectAlerts tza clk es ls) =
   filter (\<lambda>a. atype a = Anniversary \<and> Q a)
     (fst (anniversaryRule tza clk (parseLocal tza (fst (getWIBDate clk 0))) es
        (snd (birthdayRule tza clk es (Suc 0)))))"
proof -
  have 1: "filter (\<lambda>a. atype a = Anniversary \<and> Q a) (fst (birthdayRule tza clk es n)) = []" for n
    by (rule filter_none) (auto simp: birthdayRule_def dest: birthdayLoop_type)
  have 2: "filter (\<lambda>a. atype a = Anniversary \<and> Q a) (probationRule tza t es) = []" for t
    by (rule filter_none) (auto dest: probationRule_type)
  have 3: "filter (\<lambda>a. atype a = Anniversary \<and> Q a) (contractRule t es) = []" for t
    by (rule filter_none) (auto dest: contractRule_type)
  have 4: "filter (\<lambda>a. atype a = Anniversary \<and> Q a) (leaveRule t ls) = []" for t
    by (rule filter_none) (auto dest: leaveRule_type)
  show ?thesis
    by (simp add: collectAlerts_parts Let_def 1 2 3 4)
qed

lemma collect_Birthday:
  "filter (\<lambda>a. atype a = Birthday \<and> Q a) (collectAlerts tza clk es ls) =
   filter (\<lambda>a. atype a = Birthday \<and> Q a) (fst (birthdayRule tza clk es (Suc 0)))"
proof -
  have 1: "filter (\<lambda>a. atype a = Birthday \<and> Q a) (fst (anniversaryRule tza clk t es n)) = []" for n t
    by (rule filter_none) (auto simp: anniversaryRule_def dest: anniversaryLoop_type)
  have 2: "filter (\<lambda>a. atype a = Birthday \<and> Q a) (probationRule tza t es) = []" for t
    by (rule filter_none) (auto dest: probationRule_type)
  have 3: "filter (\<lambda>a. atype a = Birthday \<and> Q a) (contractRule t es) = []" for t
    by (rule filter_none) (auto dest: contractRule_type)
  have 4: "filter (\<lambda>a. atype a = Birthday \<and> Q a) (leaveRule t ls) = []" for t
    by (rule filter_none) (auto dest: leaveRule_type)
  show ?thesis
    by (simp add: collectAlerts_parts Let_def 1 2 3 4)
qed

text \<open>
  Claim C1. For an employee record \<open>emp\<close>, with \<open>d\<close> the ceiling of the days from
  \<open>today\<close> (the first read of the clock) to the contract end: the contract alerts of
  the result that name \<open>emp\<close> are one per occurrence of \<open>emp\<close> in the list when
  \<open>emp\<close> is active, has a contract end and \<open>0 \<le> d \<le> 30\<close>, and none otherwise; the
  priority is high for \<open>d \<le> 7\<close>, medium for \<open>d \<le> 14\<close>, low otherwise. At 30 days
  the alert is low, at 7 days high, at 8 days medium; past 30 days and for a contract
  that ended a day ago there is none.
\<close>

theorem contract_alert_window:
  "(let today = parseLocal tza (fst (getWIBDate clk 0));
        d = daysDifference today (newDate (current_contract_end emp))
    in filter (\<lambda>a. atype a = Contract \<and> subject a = OfEmployee emp)
         (generateCriticalAlerts tza clk employees leaveData)
       = replicate
           (if is_active emp \<and> dateTruthy (current_contract_end emp) \<and> ge d 0 \<and> le d 30
            then count_list employees emp else 0)
           \<lparr>atype = Contract,
            priority = (if le d 7 then High else if le d 14 then Medium else Low),
            subject = OfEmployee emp, daysRemaining = Some d,
            years = None, daysPending = None, action = ''Review & Renew''\<rparr>)
   \<and> daysDifference (Some t) (Some c) = Some \<lceil>real_of_int (c - t) / 86400000\<rceil>
   \<and> generateCriticalAlerts jakarta (frozen 1743465600000)
        [contractEmployee (1743465600000 + 30 * 86400000)] []
      = [\<lparr>atype = Contract, priority = Low,
          subject = OfEmployee (contractEmployee (1743465600000 + 30 * 86400000)),
          daysRemaining = Some (Some 30), years = None, daysPending = None,
          action = ''Review & Renew''\<rparr>]
   \<and> generateCriticalAlerts jakarta (frozen 1743465600000)
        [contractEmployee (1743465600000 + 7 * 86400000)] []
      = [\<lparr>atype = Contract, priority = High,
          subject = OfEmployee (contractEmployee (1743465600000 + 7 * 86400000)),
          daysRemaining = Some (Some 7), years = None, daysPending = None,
          action = ''Review & Renew''\<rparr>]
   \<and> generateCriticalAlerts jakarta (frozen 1743465600000)
        [contractEmployee (1743465600000 + 8 * 86400000)] []
      = [\<lparr>atype = Contract, priority = Medium,
          subject = OfEmployee (contractEmployee (1743465600000 + 8 * 86400000)),
          daysRemaining = Some (Some 8), years = None, daysPending = None,
          action = ''Review & Renew''\<rparr>]
   \<and> generateCriticalAlerts jakarta (frozen 1743465600000)
        [contractEmployee (1743465600000 + 30 * 86400000 + 1)] [] = []
   \<and> generateCriticalAlerts jakarta (frozen 1743465600000)
        [contractEmployee (1743465600000 - 86400000)] [] = []"
proof (intro conjI)
  show "(let today = parseLocal tza (fst (getWIBDate clk 0));
        d = daysDifference today (newDate (current_contract_end emp))
    in filter (\<lambda>a. atype a = Contract \<and> subject a = OfEmployee emp)
         (generateCriticalAlerts tza clk employees leaveData)
       = replicate
           (if is_active emp \<and> dateTruthy (current_contract_end emp) \<and> ge d 0 \<and> le d 30
            then count_list employees emp else 0)
           \<lparr>atype = Contract,
            priority = (if le d 7 then High else if le d 14 then Medium else Low),
            subject = OfEmployee emp, daysRemaining = Some d,
            years = None, daysPending = None, action = ''Review & Renew''\<rparr>)"
    unfolding generate_filter collect_Contract contractRule_for Let_def
    by (rule sort_key_replicate)
  show "daysDifference (Some t) (Some c) = Some \<lceil>real_of_int (c - t) / 86400000\<rceil>"
    by (rule daysDifference_ceiling)
qed code_simp+

text \<open>
  Claim C2. For a leave request \<open>lv\<close>, with \<open>p\<close> the ceiling of the days from its
  timestamp to \<open>today\<close>: the \<open>leave_pending\<close> alerts that name \<open>lv\<close> are one per
  occurrence when its normalized status is Pending and \<open>p > 2\<close>, and none otherwise;
  the priority is high for \<open>p > 5\<close> and medium otherwise. At exactly 2 days there is no
  alert, at 3 and 5 days a medium one, at 6 days a high one.
\<close>

theorem leave_pending_alert:
  "(let today = parseLocal tza (fst (getWIBDate clk 0));
        requestDate = newDate (if dateTruthy (timestamp lv) then timestamp lv
                               else tanggalPermohonan lv);
        p = daysDifference requestDate today
    in filter (\<lambda>a. atype a = LeavePending \<and> subject a = OfLeave lv)
         (generateCriticalAlerts tza clk employees leaveData)
       = replicate
           (if normalizeLeaveStatus (status lv) = Pending \<and> gt p 2
            then count_list leaveData lv else 0)
           \<lparr>atype = LeavePending, priority = (if gt p 5 then High else Medium),
            subject = OfLeave lv, daysRemaining = None, years = None,
            daysPending = Some p, action = ''Review Request''\<rparr>)
   \<and> daysDifference (Some r) (Some t) = Some \<lceil>real_of_int (t - r) / 86400000\<rceil>
   \<and> generateCriticalAlerts jakarta (frozen 1743465600000) []
        [pendingLeave (1743465600000 - 2 * 86400000)] = []
   \<and> generateCriticalAlerts jakarta (frozen 1743465600000) []
        [pendingLeave (1743465600000 - 3 * 86400000)]
      = [\<lparr>atype = LeavePending, priority = Medium,
          subject = OfLeave (pendingLeave (1743465600000 - 3 * 86400000)),
          daysRemaining = None, years = None, daysPending = Some (Some 3),
          action = ''Review Request''\<rparr>]
   \<and> generateCriticalAlerts jakarta (frozen 1743465600000) []
        [pendingLeave (1743465600000 - 5 * 86400000)]
      = [\<lparr>atype = LeavePending, priority = Medium,
          subject = OfLeave (pendingLeave (1743465600000 - 5 * 86400000)),
          daysRemaining = None, years = None, daysPending = Some (Some 5),
          action = ''Review Request''\<rparr>]
   \<and> generateCriticalAlerts jakarta (frozen 1743465600000) []
        [pendingLeave (1743465600000 - 6 * 86400000)]
      = [\<lparr>atype = LeavePending, priority = High,
          subject = OfLeave (pendingLeave (1743465600000 - 6 * 86400000)),
          daysRemaining = None, years = None, daysPending = Some (Some 6),
          action = ''Review Request''\<rparr>]"
proof (intro conjI)
  show "(let today = parseLocal tza (fst (getWIBDate clk 0));
        requestDate = newDate (if dateTruthy (timestamp lv) then timestamp lv
                               else tanggalPermohonan lv);
        p = daysDifference requestDate today
    in filter (\<lambda>a. atype a = LeavePending \<and> subject a = OfLeave lv)
         (generateCriticalAlerts tza clk employees leaveData)
       = replicate
           (if normalizeLeaveStatus (status lv) = Pending \<and> gt p 2
            then count_list leaveData lv else 0)
           \<lparr>atype = LeavePending, priority = (if gt p 5 then High else Medium),
            subject = OfLeave lv, daysRemaining = None, years = None,
            daysPending = Some p, action = ''Review Request''\<rparr>)"
    unfolding generate_filter collect_LeavePending leaveRule_for Let_def
    by (rule sort_key_replicate)
  show "daysDifference (Some r) (Some t) = Some \<lceil>real_of_int (t - r) / 86400000\<rceil>"
    by (rule daysDifference_ceiling)
qed code_simp+



section \<open>Reads of the clock on one day\<close>












section \<open>Order of the result\<close>

lemma priorityOrder_inj: "priorityOrder p = priorityOrder q \<longleftrightarrow> p = q"
  by (cases p; cases q) simp_all

lemma map_const: "(\<And>a. a \<in> set xs \<Longrightarrow> f a = c) \<Longrightarrow> map f xs = replicate (length xs) c"
  by (induction xs) simp_all

lemma collect_rule_order:
  "sorted (map (\<lambda>a. ruleOrder (atype a)) (collectAlerts tza clk es ls))"
proof -
  define today where "today = parseLocal tza (fst (getWIBDate clk 0))"
  define b where "b = birthdayRule tza clk es (Suc 0)"
  let ?r = "\<lambda>a. ruleOrder (atype a)"
  have 1: "map ?r (contractRule today es) = replicate (length (contractRule today es)) 1"
    by (rule map_const) (simp add: contractRule_type)
  have 2: "map ?r (fst b) = replicate (length (fst b)) 2"
    by (rule map_const) (simp add: b_def birthdayRule_def birthdayLoop_type)
  have 3: "map ?r (fst (anniversaryRule tza clk today es (snd b)))
      = replicate (length (fst (anniversaryRule tza clk today es (snd b)))) 3"
    by (rule map_const) (simp add: anniversaryRule_def anniversaryLoop_type)
  have 4: "map ?r (probationRule tza today es) = replicate (length (probationRule tza today es)) 4"
    by (rule map_const) (simp add: probationRule_type)
  have 5: "map ?r (leaveRule today ls) = replicate (length (leaveRule today ls)) 5"
    by (rule map_const) (simp add: leaveRule_type)
  have "collectAlerts tza clk es ls =
      contractRule today es @ fst b @ fst (anniversaryRule tza clk today es (snd b))
        @ probationRule tza today es @ leaveRule today ls"
    by (simp add: collectAlerts_parts Let_def today_def b_def)
  then show ?thesis
    by (simp only: map_append 1 2 3 4 5) (auto simp: sorted_append)
qed

lemma subseq_concat_rule:
  assumes "\<And>x. g x = (if C x then [h x] else [])"
    and "\<And>x. subject (h x) = S x"
  shows "subseq (map subject (concat (map g (filter Q xs)))) (map S xs)"
  by (induction xs) (auto simp: assms)

lemma subseq_birthdayLoop:
  "subseq (map subject (fst (birthdayLoop tza clk es n))) (map OfEmployee es)"
  by (induction es arbitrary: n) (auto simp: split_def)

lemma subseq_anniversaryLoop:
  "subseq (map subject (fst (anniversaryLoop tza clk today es n))) (map OfEmployee es)"
  by (induction es arbitrary: n) (auto simp: split_def Let_def)

lemma subseq_filtered:
  assumes "subseq (map subject as) (map S (filter Q xs))"
  shows "subseq (map subject as) (map S xs)"
proof -
  have "subseq (map S (filter Q xs)) (map S xs)"
    by (rule subseq_map) simp
  with assms show ?thesis
    by (rule subseq_order.trans)
qed

lemma rule_subjects:
  "subseq (map subject (contractRule today es)) (map OfEmployee es)"
  "subseq (map subject (fst (birthdayRule tza clk es n))) (map OfEmployee es)"
  "subseq (map subject (fst (anniversaryRule tza clk today es n))) (map OfEmployee es)"
  "subseq (map subject (probationRule tza today es)) (map OfEmployee es)"
  "subseq (map subject (leaveRule today ls)) (map OfLeave ls)"
proof -
  show "subseq (map subject (contractRule today es)) (map OfEmployee es)"
    unfolding contractRule_def
    by (rule subseq_concat_rule) (simp add: contractAlert_def Let_def, simp)
  show "subseq (map subject (fst (birthdayRule tza clk es n))) (map OfEmployee es)"
    unfolding birthdayRule_def by (rule subseq_filtered) (rule subseq_birthdayLoop)
  show "subseq (map subject (fst (anniversaryRule tza clk today es n))) (map OfEmployee es)"
    unfolding anniversaryRule_def by (rule subseq_filtered) (rule subseq_anniversaryLoop)
  show "subseq (map subject (probationRule tza today es)) (map OfEmployee es)"
    unfolding probationRule_def
    by (rule subseq_concat_rule) (simp add: probationAlert_def Let_def, simp)
  show "subseq (map subject (leaveRule today ls)) (map OfLeave ls)"
    unfolding leaveRule_def
    by (rule subseq_concat_rule) (simp add: leaveAlert_def Let_def, simp)
qed

lemma subseq_of_filter:
  assumes "subseq (map subject as) zs"
  shows "subseq (map subject (filter P as)) zs"
proof -
  have "subseq (map subject (filter P as)) (map subject as)"
    by (rule subseq_map) simp
  then show ?thesis using assms
    by (rule subseq_order.trans)
qed

lemma collect_by_type:
  "subseq (map subject (filter (\<lambda>a. atype a = ty) (collectAlerts tza clk es ls)))
     (map OfEmployee es @ map OfLeave ls)"
proof -
  define today where "today = parseLocal tza (fst (getWIBDate clk 0))"
  have T: "(\<lambda>a. atype a = ty) = (\<lambda>a. atype a = ty \<and> True)" by simp
  show ?thesis
  proof (cases ty)
    case Contract
    have "filter (\<lambda>a. atype a = ty) (collectAlerts tza clk es ls)
        = filter (\<lambda>a. atype a = ty) (contractRule today es)"
      unfolding Contract today_def by (subst (1 2) T [unfolded Contract]) (rule collect_Contract)
    then show ?thesis
      by (simp only:) (intro subseq_rev_drop_many subseq_of_filter rule_subjects)
  next
    case Birthday
    have "filter (\<lambda>a. atype a = ty) (collectAlerts tza clk es ls)
        = filter (\<lambda>a. atype a = ty) (fst (birthdayRule tza clk es (Suc 0)))"
      unfolding Birthday by (subst (1 2) T [unfolded Birthday]) (rule collect_Birthday)
    then show ?thesis
      by (simp only:) (intro subseq_rev_drop_many subseq_of_filter rule_subjects)
  next
    case Anniversary
    have "filter (\<lambda>a. atype a = ty) (collectAlerts tza clk es ls)
        = filter (\<lambda>a. atype a = ty)
            (fst (anniversaryRule tza clk today es (snd (birthdayRule tza clk es (Suc 0)))))"
      unfolding Anniversary today_def
      by (subst (1 2) T [unfolded Anniversary]) (rule collect_Anniversary)
    then show ?thesis
      by (simp only:) (intro subseq_rev_drop_many subseq_of_filter rule_subjects)
  next
    case Probation
    have "filter (\<lambda>a. atype a = ty) (collectAlerts tza clk es ls)
        = filter (\<lambda>a. atype a = ty) (probationRule tza today es)"
      unfolding Probation today_def by (subst (1 2) T [unfolded Probation]) (rule collect_Probation)
    then show ?thesis
      by (simp only:) (intro subseq_rev_drop_many subseq_of_filter rule_subjects)
  next
    case LeavePending
    have "filter (\<lambda>a. atype a = ty) (collectAlerts tza clk es ls)
        = filter (\<lambda>a. atype a = ty) (leaveRule today ls)"
      unfolding LeavePending today_def
      by (subst (1 2) T [unfolded LeavePending]) (rule collect_LeavePending)
    then show ?thesis
      by (simp only:) (intro subseq_drop_many subseq_of_filter rule_subjects)
  qed
qed

lemma generate_sorted:
  "sorted (map (\<lambda>a. priorityOrder (priority a)) (generateCriticalAlerts tza clk es ls))"
  unfolding generateCriticalAlerts_def by (rule sorted_sort_key)

lemma generate_stable:
  "filter (\<lambda>a. priority a = p) (generateCriticalAlerts tza clk es ls)
     = filter (\<lambda>a. priority a = p) (collectAlerts tza clk es ls)"
proof -
  have "filter (\<lambda>a. priorityOrder (priority a) = priorityOrder p)
          (sort_key (\<lambda>a. priorityOrder (priority a)) (collectAlerts tza clk es ls))
      = filter (\<lambda>a. priorityOrder (priority a) = priorityOrder p) (collectAlerts tza clk es ls)"
    by (rule sort_key_stable)
  then show ?thesis
    by (simp only: priorityOrder_inj generateCriticalAlerts_def)
qed

text \<open>
  Claim C4. The result is sorted ascending by the priority rank (high 1, medium 2,
  low 3), and the sort is stable: the alerts of one priority stand in the result in the
  order in which they were pushed. They are pushed in the order of the rules (contract,
  birthday, anniversary, probation, leave pending), and the alerts of one rule name their
  records in the order of the input list. Three employees whose alerts are pushed as
  low, medium, high (contract, birthday, probation) come out as high, medium, low.
\<close>

theorem alerts_sorted_stable:
  "sorted (map (\<lambda>a. priorityOrder (priority a))
       (generateCriticalAlerts tza clk employees leaveData))
   \<and> filter (\<lambda>a. priority a = p) (generateCriticalAlerts tza clk employees leaveData)
       = filter (\<lambda>a. priority a = p) (collectAlerts tza clk employees leaveData)
   \<and> length (generateCriticalAlerts tza clk employees leaveData)
       = length (collectAlerts tza clk employees leaveData)
   \<and> sorted (map (\<lambda>a. ruleOrder (atype a)) (collectAlerts tza clk employees leaveData))
   \<and> subseq (map subject (filter (\<lambda>a. atype a = ty) (collectAlerts tza clk employees leaveData)))
        (map OfEmployee employees @ map OfLeave leaveData)
   \<and> priorityOrder High = 1 \<and> priorityOrder Medium = 2 \<and> priorityOrder Low = 3
   \<and> map (\<lambda>a. (atype a, priority a))
        (collectAlerts jakarta (frozen 1743465600000)
           [contractEmployee (1743465600000 + 20 * 86400000), bornEmployee 638928000000,
            joinedEmployee ''Probation'' 1735689600000] [])
      = [(Contract, Low), (Birthday, Medium), (Probation, High)]
   \<and> map (\<lambda>a. (atype a, priority a))
        (generateCriticalAlerts jakarta (frozen 1743465600000)
           [contractEmployee (1743465600000 + 20 * 86400000), bornEmployee 638928000000,
            joinedEmployee ''Probation'' 1735689600000] [])
      = [(Probation, High), (Birthday, Medium), (Contract, Low)]"
proof (intro conjI)
  show "sorted (map (\<lambda>a. priorityOrder (priority a))
       (generateCriticalAlerts tza clk employees leaveData))"
    by (rule generate_sorted)
  show "filter (\<lambda>a. priority a = p) (generateCriticalAlerts tza clk employees leaveData)
       = filter (\<lambda>a. priority a = p) (collectAlerts tza clk employees leaveData)"
    by (rule generate_stable)
  show "length (generateCriticalAlerts tza clk employees leaveData)
       = length (collectAlerts tza clk employees leaveData)"
    by (simp add: generateCriticalAlerts_def)
  show "sorted (map (\<lambda>a. ruleOrder (atype a)) (collectAlerts tza clk employees leaveData))"
    by (rule collect_rule_order)
  show "subseq (map subject (filter (\<lambda>a. atype a = ty) (collectAlerts tza clk employees leaveData)))
        (map OfEmployee employees @ map OfLeave leaveData)"
    by (rule collect_by_type)
  show "priorityOrder High = 1" "priorityOrder Medium = 2" "priorityOrder Low = 3"
    by simp_all
qed code_simp+

section \<open>Reads of the clock\<close>

text \<open>
  Claim C9 fails on the code: \<open>today\<close> is read once, but \<open>getBirthdayThisYear\<close>,
  \<open>isToday\<close>, \<open>getAnniversaryThisYear\<close> and \<open>calculateYearsOfService\<close> read the clock
  again. Two runs over the same employee, born on the 15th of March, whose first read
  is the same instant, 23:59:59 on the 14th of March 2025 in Jakarta: when the clock
  stands still there is no alert; when it advances by one second per read, the reads of
  rule 2 fall on the 15th and a birthday alert is pushed.
\<close>

theorem clock_reread_skews_birthday:
  "ticking 1741971599000 1000 0 = frozen 1741971599000 0
   \<and> parseLocal jakarta (fst (getWIBDate (ticking 1741971599000 1000) 0))
       = parseLocal jakarta (fst (getWIBDate (frozen 1741971599000) 0))
   \<and> generateCriticalAlerts jakarta (frozen 1741971599000) [bornEmployee 637459200000] [] = []
   \<and> generateCriticalAlerts jakarta (ticking 1741971599000 1000) [bornEmployee 637459200000] []
      = [\<lparr>atype = Birthday, priority = Medium,
          subject = OfEmployee (bornEmployee 637459200000),
          daysRemaining = None, years = None, daysPending = None,
          action = ''Send Wishes''\<rparr>]"
  by (intro conjI; code_simp)

section \<open>Records with dates that do not parse\<close>










text \<open>NaN fails every comparison, and an invalid Date gives NaN for every field.\<close>

lemma NaN_fails [simp]: "\<not> ge None k" "\<not> le None k" "\<not> gt None k"
  by (simp_all add: ge_def le_def gt_def)

lemma invalid_date_fields [simp]:
  "getFullYear tza None = None" "getMonth tza None = None" "getDate tza None = None"
  "toDateString tza None = None" "setMonth tza None m = None"
  by (simp_all add: getFullYear_def getMonth_def getDate_def toDateString_def setMonth_def)

lemma newDateYMD_NaN [simp]:
  "newDateYMD tza None m d = None" "newDateYMD tza y None d = None"
  "newDateYMD tza y m None = None"
  by (simp_all add: newDateYMD_def split: option.splits)

















end
